theory Spec2Isabelle
  imports Main "HOL-Library.Word"
begin

section \<open>Empress: the memory-ceiling guard and its logging helper\<close>

text \<open>
  A shallow embedding of \<^verbatim>\<open>empress.hpp\<close> and \<^verbatim>\<open>example.cpp\<close>.
  The process's observable world is explicit state: the characters written to
  \<^verbatim>\<open>std::cout\<close>, the characters still unread on \<^verbatim>\<open>std::cin\<close>, and the
  sequence of operating-system calls made so far. Every function of the source that
  prints or calls the operating system takes the world and returns the new one.
\<close>

subsection \<open>Windows types (the LLP64 data model of a 64-bit build)\<close>

type_synonym NTSTATUS = "32 word" \<comment> \<open>\<^verbatim>\<open>typedef LONG NTSTATUS\<close>: read as signed with \<open>sint\<close>\<close>
type_synonym DWORD = "32 word"
type_synonym ULONG = "32 word"
type_synonym ACCESS_MASK = "32 word"
type_synonym JOBOBJECTINFOCLASS = "32 word"
type_synonym SIZE_T = "64 word"
type_synonym PVOID = "64 word" \<comment> \<open>a pointer: \<open>0\<close> is \<^verbatim>\<open>nullptr\<close>\<close>
type_synonym HANDLE = "64 word"

record JOBOBJECT_BASIC_LIMIT_INFORMATION =
  PerProcessUserTimeLimit :: "64 word"
  PerJobUserTimeLimit :: "64 word"
  LimitFlags :: DWORD
  MinimumWorkingSetSize :: SIZE_T
  MaximumWorkingSetSize :: SIZE_T
  ActiveProcessLimit :: DWORD
  Affinity :: "64 word"
  PriorityClass :: DWORD
  SchedulingClass :: DWORD

record IO_COUNTERS =
  ReadOperationCount :: "64 word"
  WriteOperationCount :: "64 word"
  OtherOperationCount :: "64 word"
  ReadTransferCount :: "64 word"
  WriteTransferCount :: "64 word"
  OtherTransferCount :: "64 word"

record JOBOBJECT_EXTENDED_LIMIT_INFORMATION =
  BasicLimitInformation :: JOBOBJECT_BASIC_LIMIT_INFORMATION
  IoInfo :: IO_COUNTERS
  ProcessMemoryLimit :: SIZE_T
  JobMemoryLimit :: SIZE_T
  PeakProcessMemoryUsed :: SIZE_T
  PeakJobMemoryUsed :: SIZE_T

text \<open>
  Constants of \<^verbatim>\<open>Windows.h\<close> that \<^verbatim>\<open>enable()\<close> uses, with the values of the
  platform headers; \<open>sizeof_limits\<close> is \<^verbatim>\<open>sizeof(JOBOBJECT_EXTENDED_LIMIT_INFORMATION)\<close>
  in a 64-bit build: 64 bytes of basic limits, 48 of I/O counters, four 8-byte sizes.
\<close>

definition MAXIMUM_ALLOWED :: ACCESS_MASK where
  "MAXIMUM_ALLOWED = 0x02000000"

definition JOB_OBJECT_LIMIT_PROCESS_MEMORY :: DWORD where
  "JOB_OBJECT_LIMIT_PROCESS_MEMORY = 0x00000100"

definition JobObjectExtendedLimitInformation :: JOBOBJECTINFOCLASS where
  "JobObjectExtendedLimitInformation = 9"

definition sizeof_limits :: ULONG where
  "sizeof_limits = 64 + 48 + 4 * 8"

text \<open>\<^verbatim>\<open>JOBOBJECT_EXTENDED_LIMIT_INFORMATION limits = {}\<close>: every member is zero.\<close>

definition zero_limits :: JOBOBJECT_EXTENDED_LIMIT_INFORMATION where
  "zero_limits =
     \<lparr>BasicLimitInformation =
        \<lparr>PerProcessUserTimeLimit = 0, PerJobUserTimeLimit = 0, LimitFlags = 0,
         MinimumWorkingSetSize = 0, MaximumWorkingSetSize = 0, ActiveProcessLimit = 0,
         Affinity = 0, PriorityClass = 0, SchedulingClass = 0\<rparr>,
      IoInfo =
        \<lparr>ReadOperationCount = 0, WriteOperationCount = 0, OtherOperationCount = 0,
         ReadTransferCount = 0, WriteTransferCount = 0, OtherTransferCount = 0\<rparr>,
      ProcessMemoryLimit = 0, JobMemoryLimit = 0,
      PeakProcessMemoryUsed = 0, PeakJobMemoryUsed = 0\<rparr>"

subsection \<open>The world: console streams and the operating-system calls made\<close>

datatype os_call =
    NtCreateJobObject_call ACCESS_MASK PVOID
  | NtAssignProcessToJobObject_call HANDLE HANDLE
  | NtSetInformationJobObject_call HANDLE JOBOBJECTINFOCLASS
      JOBOBJECT_EXTENDED_LIMIT_INFORMATION ULONG
  | CloseHandle_call HANDLE

record world =
  cout :: string
  cin :: string
  calls :: "os_call list"

text \<open>
  What the operating system answers in one run. \<open>ntdll_export\<close> is
  \<^verbatim>\<open>GetProcAddress(GetModuleHandleA("ntdll.dll"), name)\<close>: the address of the
  export, or \<open>0\<close> when the export (or the library) is not found. Each primitive is
  called at most once in a run, so its answer in the run is one value: the status it
  returns, and for the creation primitive also the handle it stores through its first
  argument.
\<close>

record nt_env =
  ntdll_export :: "string \<Rightarrow> PVOID"
  NtCreateJobObject_status :: NTSTATUS
  NtCreateJobObject_handle :: HANDLE
  NtAssignProcessToJobObject_status :: NTSTATUS
  NtSetInformationJobObject_status :: NTSTATUS

subsection \<open>\<^verbatim>\<open>empress::logging\<close>\<close>

datatype log_level = info | warning | error

text \<open>\<^verbatim>\<open>std::endl\<close> writes the line terminator (and flushes the stream).\<close>

definition endl :: string where
  "endl = [CHR 0x0A]"

text \<open>
  \<^verbatim>\<open>log(level, fmt, args...)\<close>: \<open>msg\<close> is the text \<^verbatim>\<open>std::format(fmt, args...)\<close>
  returns. Every call of this repository passes a literal without braces and no
  arguments, for which that text is the literal itself.
\<close>

definition log :: "log_level \<Rightarrow> string \<Rightarrow> world \<Rightarrow> world" where
  "log level msg w =
     (let prefix = (case level of
                      info \<Rightarrow> ''[INFO] ''
                    | warning \<Rightarrow> ''[WARN] ''
                    | error \<Rightarrow> ''[ERROR] '')
      in w\<lparr>cout := cout w @ prefix @ msg @ endl\<rparr>)"

subsection \<open>\<^verbatim>\<open>empress::protection\<close>\<close>

text \<open>\<^verbatim>\<open>#define NT_SUCCESS(Status) (((NTSTATUS)(Status)) >= 0)\<close>\<close>

definition NT_SUCCESS :: "NTSTATUS \<Rightarrow> bool" where
  "NT_SUCCESS Status = (0 \<le> sint Status)"

text \<open>\<^verbatim>\<open>#define NtCurrentProcess() ((HANDLE)(LONG_PTR)-1)\<close>\<close>

definition NtCurrentProcess :: HANDLE where
  "NtCurrentProcess = - 1"

definition get_nt_api :: "nt_env \<Rightarrow> string \<Rightarrow> PVOID" where
  "get_nt_api env name = ntdll_export env name"

text \<open>A call of the operating system is recorded in the world, in order.\<close>

definition call :: "os_call \<Rightarrow> world \<Rightarrow> world" where
  "call c w = w\<lparr>calls := calls w @ [c]\<rparr>"

definition enable :: "nt_env \<Rightarrow> world \<Rightarrow> bool \<times> world" where
  "enable env w =
     (let NtCreateJobObject = get_nt_api env ''NtCreateJobObject'';
          NtAssignProcessToJobObject = get_nt_api env ''NtAssignProcessToJobObject'';
          NtSetInformationJobObject = get_nt_api env ''NtSetInformationJobObject''
      in
      if NtCreateJobObject = 0 \<or> NtAssignProcessToJobObject = 0
         \<or> NtSetInformationJobObject = 0
      then (False, log error ''Failed to get NT API functions'' w)
      else
        let w1 = call (NtCreateJobObject_call MAXIMUM_ALLOWED 0) w;
            job = NtCreateJobObject_handle env;
            status = NtCreateJobObject_status env
        in if \<not> NT_SUCCESS status
           then (False, log error ''Failed to create job object'' w1)
           else
             let w2 = call (NtAssignProcessToJobObject_call job NtCurrentProcess) w1;
                 status = NtAssignProcessToJobObject_status env
             in if \<not> NT_SUCCESS status
                then (False,
                      log error ''Failed to assign process to job''
                        (call (CloseHandle_call job) w2))
                else
                  let limits = zero_limits
                        \<lparr>ProcessMemoryLimit := 0x1000,
                         BasicLimitInformation :=
                           (BasicLimitInformation zero_limits)
                             \<lparr>LimitFlags := JOB_OBJECT_LIMIT_PROCESS_MEMORY\<rparr>\<rparr>;
                      w3 = call (NtSetInformationJobObject_call job
                                   JobObjectExtendedLimitInformation limits sizeof_limits) w2;
                      status = NtSetInformationJobObject_status env
                  in if \<not> NT_SUCCESS status
                     then (False,
                           log error ''Failed to set job limits''
                             (call (CloseHandle_call job) w3))
                     else (True, log info ''Memory protection active'' w3))"

subsection \<open>\<^verbatim>\<open>example.cpp\<close>\<close>

definition enable_protection :: "nt_env \<Rightarrow> world \<Rightarrow> world" where
  "enable_protection env w =
     (let (ok, w1) = enable env w
      in if ok then log info ''Protection active!'' w1
         else log error ''Failed to set protection!'' w1)"

text \<open>\<^verbatim>\<open>std::cin.get()\<close>: the next character as an \<^verbatim>\<open>int\<close>, or \<^verbatim>\<open>EOF\<close> (-1).\<close>

definition cin_get :: "world \<Rightarrow> int \<times> world" where
  "cin_get w = (case cin w of
                  [] \<Rightarrow> (- 1, w)
                | c # cs \<Rightarrow> (of_char c, w\<lparr>cin := cs\<rparr>))"

definition main :: "nt_env \<Rightarrow> world \<Rightarrow> int \<times> world" where
  "main env w =
     (let w1 = enable_protection env w;
          w2 = log info ''Press ENTER to close program.'' w1
      in cin_get w2)"

subsection \<open>Observations of a run\<close>

text \<open>The text written to \<^verbatim>\<open>std::cout\<close> and the calls made between two worlds.\<close>

definition emitted :: "world \<Rightarrow> world \<Rightarrow> string" where
  "emitted w w' = drop (length (cout w)) (cout w')"

definition invoked :: "world \<Rightarrow> world \<Rightarrow> os_call list" where
  "invoked w w' = drop (length (calls w)) (calls w')"

text \<open>The number of lines in a text: one per line terminator.\<close>

definition line_count :: "string \<Rightarrow> nat" where
  "line_count s = count_list s (CHR 0x0A)"

text \<open>The guard of \<^verbatim>\<open>enable()\<close>'s first \<^verbatim>\<open>if\<close>, negated: all three lookups found.\<close>

definition all_resolved :: "nt_env \<Rightarrow> bool" where
  "all_resolved env =
     (get_nt_api env ''NtCreateJobObject'' \<noteq> 0
      \<and> get_nt_api env ''NtAssignProcessToJobObject'' \<noteq> 0
      \<and> get_nt_api env ''NtSetInformationJobObject'' \<noteq> 0)"

text \<open>The limit record that \<^verbatim>\<open>enable()\<close> builds, with every member written out.\<close>

definition memory_limits :: JOBOBJECT_EXTENDED_LIMIT_INFORMATION where
  "memory_limits =
     \<lparr>BasicLimitInformation =
        \<lparr>PerProcessUserTimeLimit = 0, PerJobUserTimeLimit = 0, LimitFlags = 0x100,
         MinimumWorkingSetSize = 0, MaximumWorkingSetSize = 0, ActiveProcessLimit = 0,
         Affinity = 0, PriorityClass = 0, SchedulingClass = 0\<rparr>,
      IoInfo =
        \<lparr>ReadOperationCount = 0, WriteOperationCount = 0, OtherOperationCount = 0,
         ReadTransferCount = 0, WriteTransferCount = 0, OtherTransferCount = 0\<rparr>,
      ProcessMemoryLimit = 4096, JobMemoryLimit = 0,
      PeakProcessMemoryUsed = 0, PeakJobMemoryUsed = 0\<rparr>"

subsection \<open>Concrete runs\<close>

text \<open>
  Two starting worlds (a process at start-up with ENTER waiting on standard input, and one
  that has already printed and closed a handle) and the answers of the operating system:
  everything succeeds (twice, at different addresses and with different handles); the
  creation primitive is not exported; creation, attachment or limit setting is refused
  with \<^verbatim>\<open>STATUS_ACCESS_DENIED\<close> (\<^verbatim>\<open>0xC0000022\<close>, negative as a \<^verbatim>\<open>LONG\<close>);
  every primitive answers with a status of informational severity (\<^verbatim>\<open>0x40000000\<close>,
  non-negative); attachment answers \<^verbatim>\<open>STATUS_BUFFER_OVERFLOW\<close> (\<^verbatim>\<open>0x80000005\<close>, of
  warning severity, negative).
\<close>

definition w_start :: world where
  "w_start = \<lparr>cout = [], cin = [CHR 0x0A], calls = []\<rparr>"

definition w_busy :: world where
  "w_busy = \<lparr>cout = ''boot'' @ [CHR 0x0A], cin = [], calls = [CloseHandle_call 0x10]\<rparr>"

definition env_ok :: nt_env where
  "env_ok =
     \<lparr>ntdll_export =
        (\<lambda>name. if name = ''NtCreateJobObject'' then 0x7FF800001000
                else if name = ''NtAssignProcessToJobObject'' then 0x7FF800002000
                else if name = ''NtSetInformationJobObject'' then 0x7FF800003000
                else 0),
      NtCreateJobObject_status = 0, NtCreateJobObject_handle = 0x44,
      NtAssignProcessToJobObject_status = 0, NtSetInformationJobObject_status = 0\<rparr>"

definition env_ok_elsewhere :: nt_env where
  "env_ok_elsewhere =
     \<lparr>ntdll_export =
        (\<lambda>name. if name = ''NtCreateJobObject'' then 0x7FFA10004000
                else if name = ''NtAssignProcessToJobObject'' then 0x7FFA10005000
                else if name = ''NtSetInformationJobObject'' then 0x7FFA10006000
                else 0),
      NtCreateJobObject_status = 0, NtCreateJobObject_handle = 0x1C8,
      NtAssignProcessToJobObject_status = 0, NtSetInformationJobObject_status = 0\<rparr>"

definition env_unresolved :: nt_env where
  "env_unresolved =
     env_ok\<lparr>ntdll_export :=
              (\<lambda>name. if name = ''NtCreateJobObject'' then 0 else ntdll_export env_ok name)\<rparr>"

definition env_create_fails :: nt_env where
  "env_create_fails = env_ok\<lparr>NtCreateJobObject_status := 0xC0000022\<rparr>"

definition env_attach_fails :: nt_env where
  "env_attach_fails = env_ok\<lparr>NtAssignProcessToJobObject_status := 0xC0000022\<rparr>"

definition env_limit_fails :: nt_env where
  "env_limit_fails = env_ok\<lparr>NtSetInformationJobObject_status := 0xC0000022\<rparr>"

definition env_informational :: nt_env where
  "env_informational =
     env_ok\<lparr>NtCreateJobObject_status := 0x40000000,
            NtAssignProcessToJobObject_status := 0x40000000,
            NtSetInformationJobObject_status := 0x40000000\<rparr>"

definition env_warning :: nt_env where
  "env_warning = env_ok\<lparr>NtAssignProcessToJobObject_status := 0x80000005\<rparr>"

lemmas run_defs =
  w_start_def w_busy_def env_ok_def env_ok_elsewhere_def env_unresolved_def
  env_create_fails_def env_attach_fails_def env_limit_fails_def env_informational_def
  env_warning_def all_resolved_def get_nt_api_def

lemmas const_defs =
  MAXIMUM_ALLOWED_def NtCurrentProcess_def JobObjectExtendedLimitInformation_def
  sizeof_limits_def endl_def

section \<open>The five exits of \<^verbatim>\<open>enable()\<close>\<close>

lemma limits_written:
  "zero_limits\<lparr>ProcessMemoryLimit := 0x1000,
                BasicLimitInformation :=
                  (BasicLimitInformation zero_limits)
                    \<lparr>LimitFlags := JOB_OBJECT_LIMIT_PROCESS_MEMORY\<rparr>\<rparr> = memory_limits"
  by (simp add: zero_limits_def memory_limits_def JOB_OBJECT_LIMIT_PROCESS_MEMORY_def)

lemma enable_unresolved:
  "\<not> all_resolved env \<Longrightarrow>
     enable env w =
       (False, w\<lparr>cout := cout w @ ''[ERROR] Failed to get NT API functions'' @ endl\<rparr>)"
  by (auto simp add: enable_def all_resolved_def log_def Let_def)

lemma enable_create_failed:
  "all_resolved env \<Longrightarrow> sint (NtCreateJobObject_status env) < 0 \<Longrightarrow>
     enable env w =
       (False, w\<lparr>cout := cout w @ ''[ERROR] Failed to create job object'' @ endl,
                 calls := calls w @ [NtCreateJobObject_call MAXIMUM_ALLOWED 0]\<rparr>)"
  by (simp add: enable_def all_resolved_def NT_SUCCESS_def Let_def log_def call_def)

lemma enable_assign_failed:
  "all_resolved env \<Longrightarrow> 0 \<le> sint (NtCreateJobObject_status env) \<Longrightarrow>
   sint (NtAssignProcessToJobObject_status env) < 0 \<Longrightarrow>
     enable env w =
       (False, w\<lparr>cout := cout w @ ''[ERROR] Failed to assign process to job'' @ endl,
                 calls := calls w @
                   [NtCreateJobObject_call MAXIMUM_ALLOWED 0,
                    NtAssignProcessToJobObject_call (NtCreateJobObject_handle env)
                      NtCurrentProcess,
                    CloseHandle_call (NtCreateJobObject_handle env)]\<rparr>)"
  by (simp add: enable_def all_resolved_def NT_SUCCESS_def Let_def log_def call_def)

lemma enable_limit_failed:
  "all_resolved env \<Longrightarrow> 0 \<le> sint (NtCreateJobObject_status env) \<Longrightarrow>
   0 \<le> sint (NtAssignProcessToJobObject_status env) \<Longrightarrow>
   sint (NtSetInformationJobObject_status env) < 0 \<Longrightarrow>
     enable env w =
       (False, w\<lparr>cout := cout w @ ''[ERROR] Failed to set job limits'' @ endl,
                 calls := calls w @
                   [NtCreateJobObject_call MAXIMUM_ALLOWED 0,
                    NtAssignProcessToJobObject_call (NtCreateJobObject_handle env)
                      NtCurrentProcess,
                    NtSetInformationJobObject_call (NtCreateJobObject_handle env)
                      JobObjectExtendedLimitInformation memory_limits sizeof_limits,
                    CloseHandle_call (NtCreateJobObject_handle env)]\<rparr>)"
  by (simp add: enable_def all_resolved_def NT_SUCCESS_def Let_def log_def call_def
      limits_written)

lemma enable_success:
  "all_resolved env \<Longrightarrow> 0 \<le> sint (NtCreateJobObject_status env) \<Longrightarrow>
   0 \<le> sint (NtAssignProcessToJobObject_status env) \<Longrightarrow>
   0 \<le> sint (NtSetInformationJobObject_status env) \<Longrightarrow>
     enable env w =
       (True, w\<lparr>cout := cout w @ ''[INFO] Memory protection active'' @ endl,
                calls := calls w @
                   [NtCreateJobObject_call MAXIMUM_ALLOWED 0,
                    NtAssignProcessToJobObject_call (NtCreateJobObject_handle env)
                      NtCurrentProcess,
                    NtSetInformationJobObject_call (NtCreateJobObject_handle env)
                      JobObjectExtendedLimitInformation memory_limits sizeof_limits]\<rparr>)"
  by (simp add: enable_def all_resolved_def NT_SUCCESS_def Let_def log_def call_def
      limits_written)

text \<open>Every run takes exactly one of the five exits.\<close>

lemma enable_cases:
  obtains (unresolved) "\<not> all_resolved env"
  | (create_failed) "all_resolved env" "sint (NtCreateJobObject_status env) < 0"
  | (assign_failed) "all_resolved env" "0 \<le> sint (NtCreateJobObject_status env)"
      "sint (NtAssignProcessToJobObject_status env) < 0"
  | (limit_failed) "all_resolved env" "0 \<le> sint (NtCreateJobObject_status env)"
      "0 \<le> sint (NtAssignProcessToJobObject_status env)"
      "sint (NtSetInformationJobObject_status env) < 0"
  | (success) "all_resolved env" "0 \<le> sint (NtCreateJobObject_status env)"
      "0 \<le> sint (NtAssignProcessToJobObject_status env)"
      "0 \<le> sint (NtSetInformationJobObject_status env)"
  by linarith

lemma emitted_cout [simp]: "emitted w (w\<lparr>cout := cout w @ s, calls := cs\<rparr>) = s"
  by (simp add: emitted_def)

lemma emitted_cout_only [simp]: "emitted w (w\<lparr>cout := cout w @ s\<rparr>) = s"
  by (simp add: emitted_def)

lemma invoked_calls [simp]: "invoked w (w\<lparr>cout := s, calls := calls w @ cs\<rparr>) = cs"
  by (simp add: invoked_def)

lemma invoked_none [simp]: "invoked w (w\<lparr>cout := s\<rparr>) = []"
  by (simp add: invoked_def)

lemma line_count_Nil [simp]: "line_count [] = 0"
  by (simp add: line_count_def)

lemma line_count_Cons [simp]:
  "line_count (c # s) = (if c = CHR 0x0A then Suc (line_count s) else line_count s)"
  by (simp add: line_count_def)

lemma line_count_append [simp]: "line_count (s @ t) = line_count s + line_count t"
  by (induction s) simp_all

lemma line_count_endl [simp]: "line_count endl = 1"
  by (simp add: endl_def)

lemma cout_cin_get: "cout (snd (cin_get w)) = cout w"
  by (simp add: cin_get_def split: list.split)

text \<open>
  The macro tests the sign bit alone. Of the four severities an \<^verbatim>\<open>NTSTATUS\<close> carries in
  its two top bits, success (00) and informational (01) pass, warning (10) and error (11)
  fail.
\<close>

lemma NT_SUCCESS_sign_bit: "NT_SUCCESS s \<longleftrightarrow> \<not> bit s 31"
  using bit_last_iff [of s] by (simp add: NT_SUCCESS_def not_less)

section \<open>The container handle\<close>

text \<open>
  C1, as the code has it. When the container was created (the lookups succeeded and the
  creation status is non-negative), \<^verbatim>\<open>enable()\<close> calls \<^verbatim>\<open>CloseHandle\<close>
  exactly once, on the created handle, before it returns \<^verbatim>\<open>false\<close>, and not at all
  before it returns \<^verbatim>\<open>true\<close>: the success path leaves the handle open. When the
  container was not created (a lookup failed, or the creation status is negative),
  \<^verbatim>\<open>enable()\<close> returns \<^verbatim>\<open>false\<close> without any call of \<^verbatim>\<open>CloseHandle\<close>.
\<close>

theorem enable_closes_handle_on_failure_only:
  "(all_resolved env \<and> 0 \<le> sint (NtCreateJobObject_status env) \<longrightarrow>
      count_list (invoked w (snd (enable env w)))
        (CloseHandle_call (NtCreateJobObject_handle env))
      = (if fst (enable env w) then 0 else 1)
      \<and> length (filter (\<lambda>c. \<exists>h. c = CloseHandle_call h) (invoked w (snd (enable env w))))
        = (if fst (enable env w) then 0 else 1))
   \<and> (\<not> all_resolved env \<or> sint (NtCreateJobObject_status env) < 0 \<longrightarrow>
      fst (enable env w) = False
      \<and> filter (\<lambda>c. \<exists>h. c = CloseHandle_call h) (invoked w (snd (enable env w))) = [])"
proof (cases env rule: enable_cases)
  case unresolved
  then show ?thesis by (simp add: enable_unresolved)
next
  case create_failed
  then show ?thesis by (simp add: enable_create_failed)
next
  case assign_failed
  then show ?thesis by (simp add: enable_assign_failed)
next
  case limit_failed
  then show ?thesis by (simp add: enable_limit_failed)
next
  case success
  then show ?thesis by (simp add: enable_success)
qed

theorem enable_closes_handle_on_failure_only_witness:
  "all_resolved env_limit_fails \<and> 0 \<le> sint (NtCreateJobObject_status env_limit_fails)
   \<and> fst (enable env_limit_fails w_start) = False
   \<and> count_list (invoked w_start (snd (enable env_limit_fails w_start)))
        (CloseHandle_call 0x44) = 1
   \<and> all_resolved env_ok \<and> 0 \<le> sint (NtCreateJobObject_status env_ok)
   \<and> fst (enable env_ok w_start) = True
   \<and> count_list (invoked w_start (snd (enable env_ok w_start))) (CloseHandle_call 0x44) = 0
   \<and> sint (NtCreateJobObject_status env_create_fails) < 0
   \<and> fst (enable env_create_fails w_start) = False
   \<and> filter (\<lambda>c. \<exists>h. c = CloseHandle_call h)
        (invoked w_start (snd (enable env_create_fails w_start))) = []
   \<and> all_resolved env_unresolved = False
   \<and> filter (\<lambda>c. \<exists>h. c = CloseHandle_call h)
        (invoked w_start (snd (enable env_unresolved w_start))) = []"
  using enable_closes_handle_on_failure_only [of env_limit_fails w_start]
    enable_closes_handle_on_failure_only [of env_ok w_start]
    enable_closes_handle_on_failure_only [of env_create_fails w_start]
    enable_closes_handle_on_failure_only [of env_unresolved w_start]
  by (simp add: run_defs enable_def NT_SUCCESS_def)

text \<open>
  C1 as the specification words it (closed on every exit after creation, the success path
  included) fails on the success path: every lookup and every primitive succeeds, the
  container is created, \<^verbatim>\<open>enable()\<close> returns \<^verbatim>\<open>true\<close>, and the calls of the run
  are the three primitives only: \<^verbatim>\<open>CloseHandle\<close> is never called.
\<close>

theorem enable_success_leaves_handle_open:
  "all_resolved env_ok \<and> 0 \<le> sint (NtCreateJobObject_status env_ok)
   \<and> fst (enable env_ok w_start)
   \<and> calls (snd (enable env_ok w_start)) =
       [NtCreateJobObject_call 0x02000000 0,
        NtAssignProcessToJobObject_call 0x44 (- 1),
        NtSetInformationJobObject_call 0x44 9 memory_limits 144]
   \<and> count_list (calls (snd (enable env_ok w_start))) (CloseHandle_call 0x44) = 0"
  by (simp add: run_defs const_defs enable_def NT_SUCCESS_def Let_def log_def call_def
      limits_written)

section \<open>The result and the steps of \<^verbatim>\<open>enable()\<close>\<close>

text \<open>
  C2. \<^verbatim>\<open>enable()\<close> returns \<^verbatim>\<open>true\<close> if and only if all three lookups give a
  non-null pointer and the creation, attachment and limit-setting calls each return a
  non-negative status; in every other run it returns \<^verbatim>\<open>false\<close>.
\<close>

theorem enable_true_iff_all_steps_succeed:
  "fst (enable env w) \<longleftrightarrow>
     get_nt_api env ''NtCreateJobObject'' \<noteq> 0
     \<and> get_nt_api env ''NtAssignProcessToJobObject'' \<noteq> 0
     \<and> get_nt_api env ''NtSetInformationJobObject'' \<noteq> 0
     \<and> 0 \<le> sint (NtCreateJobObject_status env)
     \<and> 0 \<le> sint (NtAssignProcessToJobObject_status env)
     \<and> 0 \<le> sint (NtSetInformationJobObject_status env)"
proof (cases env rule: enable_cases)
  case unresolved
  then show ?thesis by (auto simp add: enable_unresolved all_resolved_def)
next
  case create_failed
  then show ?thesis by (simp add: enable_create_failed)
next
  case assign_failed
  then show ?thesis by (simp add: enable_assign_failed)
next
  case limit_failed
  then show ?thesis by (simp add: enable_limit_failed)
next
  case success
  then show ?thesis by (simp add: enable_success all_resolved_def)
qed

theorem enable_true_iff_all_steps_succeed_witness:
  "fst (enable env_ok w_start) = True \<and> fst (enable env_limit_fails w_start) = False"
  using enable_true_iff_all_steps_succeed [of env_ok w_start]
    enable_true_iff_all_steps_succeed [of env_limit_fails w_start]
  by (simp add: run_defs)

text \<open>
  C3. When at least one of the three lookups returns null, \<^verbatim>\<open>enable()\<close> writes the
  error line "Failed to get NT API functions" and returns \<^verbatim>\<open>false\<close> at once: it
  invokes no primitive, so no container is created and no attachment is attempted.
\<close>

theorem enable_fails_fast_on_unresolved_api:
  assumes "get_nt_api env ''NtCreateJobObject'' = 0
           \<or> get_nt_api env ''NtAssignProcessToJobObject'' = 0
           \<or> get_nt_api env ''NtSetInformationJobObject'' = 0"
  shows "fst (enable env w) = False
         \<and> cout (snd (enable env w)) =
             cout w @ ''[ERROR] Failed to get NT API functions'' @ endl
         \<and> emitted w (snd (enable env w)) = ''[ERROR] Failed to get NT API functions'' @ endl
         \<and> calls (snd (enable env w)) = calls w
         \<and> invoked w (snd (enable env w)) = []"
proof -
  from assms have "\<not> all_resolved env" by (auto simp add: all_resolved_def)
  then show ?thesis by (simp add: enable_unresolved)
qed

theorem enable_fails_fast_on_unresolved_api_witness:
  "get_nt_api env_unresolved ''NtCreateJobObject'' = 0
   \<and> fst (enable env_unresolved w_start) = False
   \<and> cout (snd (enable env_unresolved w_start)) =
       ''[ERROR] Failed to get NT API functions'' @ [CHR 0x0A]
   \<and> calls (snd (enable env_unresolved w_start)) = []"
  using enable_fails_fast_on_unresolved_api [of env_unresolved w_start]
  by (simp add: run_defs endl_def)

text \<open>
  C4. When the container is created and the attachment call or the limit-setting call
  returns a negative status, \<^verbatim>\<open>enable()\<close> returns \<^verbatim>\<open>false\<close> and has called
  \<^verbatim>\<open>CloseHandle\<close> exactly once, on the created handle, as its last call of the
  operating system; when it is the attachment that fails, the run writes exactly one line,
  the error line "Failed to assign process to job".
\<close>

theorem enable_closes_handle_once_on_late_failure:
  assumes "all_resolved env" and "0 \<le> sint (NtCreateJobObject_status env)"
    and "sint (NtAssignProcessToJobObject_status env) < 0
         \<or> sint (NtSetInformationJobObject_status env) < 0"
  shows "fst (enable env w) = False
         \<and> count_list (invoked w (snd (enable env w)))
              (CloseHandle_call (NtCreateJobObject_handle env)) = 1
         \<and> length (filter (\<lambda>c. \<exists>h. c = CloseHandle_call h)
                     (invoked w (snd (enable env w)))) = 1
         \<and> last (calls (snd (enable env w))) = CloseHandle_call (NtCreateJobObject_handle env)
         \<and> (sint (NtAssignProcessToJobObject_status env) < 0 \<longrightarrow>
              emitted w (snd (enable env w)) =
                ''[ERROR] Failed to assign process to job'' @ endl
              \<and> line_count (emitted w (snd (enable env w))) = 1)"
proof (cases env rule: enable_cases)
  case unresolved
  with assms show ?thesis by simp
next
  case create_failed
  with assms show ?thesis by simp
next
  case assign_failed
  then show ?thesis by (simp add: enable_assign_failed)
next
  case limit_failed
  then show ?thesis by (simp add: enable_limit_failed)
next
  case success
  with assms show ?thesis by simp
qed

theorem enable_closes_handle_once_on_late_failure_witness:
  "all_resolved env_attach_fails \<and> 0 \<le> sint (NtCreateJobObject_status env_attach_fails)
   \<and> sint (NtAssignProcessToJobObject_status env_attach_fails) < 0
   \<and> fst (enable env_attach_fails w_start) = False
   \<and> count_list (invoked w_start (snd (enable env_attach_fails w_start)))
        (CloseHandle_call 0x44) = 1
   \<and> emitted w_start (snd (enable env_attach_fails w_start)) =
        ''[ERROR] Failed to assign process to job'' @ [CHR 0x0A]"
  using enable_closes_handle_once_on_late_failure [of env_attach_fails w_start]
  by (simp add: run_defs endl_def)

text \<open>
  C5. On every run in which \<^verbatim>\<open>enable()\<close> returns \<^verbatim>\<open>true\<close>, the calls of the run
  are creation, attachment and one limit-setting call on the created handle, whose record
  has a process memory limit of 4096 bytes, the process-memory flag as its only limit
  flag and every other member zero, and which is passed with the extended-limit
  information class and the size of the record.
\<close>

theorem enable_writes_memory_ceiling:
  assumes "fst (enable env w)"
  shows "invoked w (snd (enable env w)) =
           [NtCreateJobObject_call MAXIMUM_ALLOWED 0,
            NtAssignProcessToJobObject_call (NtCreateJobObject_handle env) NtCurrentProcess,
            NtSetInformationJobObject_call (NtCreateJobObject_handle env)
              JobObjectExtendedLimitInformation
              \<lparr>BasicLimitInformation =
                 \<lparr>PerProcessUserTimeLimit = 0, PerJobUserTimeLimit = 0,
                  LimitFlags = JOB_OBJECT_LIMIT_PROCESS_MEMORY,
                  MinimumWorkingSetSize = 0, MaximumWorkingSetSize = 0,
                  ActiveProcessLimit = 0, Affinity = 0, PriorityClass = 0,
                  SchedulingClass = 0\<rparr>,
               IoInfo =
                 \<lparr>ReadOperationCount = 0, WriteOperationCount = 0, OtherOperationCount = 0,
                  ReadTransferCount = 0, WriteTransferCount = 0, OtherTransferCount = 0\<rparr>,
               ProcessMemoryLimit = 4096, JobMemoryLimit = 0,
               PeakProcessMemoryUsed = 0, PeakJobMemoryUsed = 0\<rparr>
              sizeof_limits]
         \<and> JOB_OBJECT_LIMIT_PROCESS_MEMORY = 0x100
         \<and> JobObjectExtendedLimitInformation = 9
         \<and> sizeof_limits = 144"
proof (cases env rule: enable_cases)
  case unresolved
  with assms show ?thesis by (simp add: enable_unresolved)
next
  case create_failed
  with assms show ?thesis by (simp add: enable_create_failed)
next
  case assign_failed
  with assms show ?thesis by (simp add: enable_assign_failed)
next
  case limit_failed
  with assms show ?thesis by (simp add: enable_limit_failed)
next
  case success
  then show ?thesis
    by (simp add: enable_success memory_limits_def JOB_OBJECT_LIMIT_PROCESS_MEMORY_def
        JobObjectExtendedLimitInformation_def sizeof_limits_def)
qed

theorem enable_writes_memory_ceiling_witness:
  "fst (enable env_ok w_start)
   \<and> invoked w_start (snd (enable env_ok w_start)) =
       [NtCreateJobObject_call 0x02000000 0,
        NtAssignProcessToJobObject_call 0x44 (- 1),
        NtSetInformationJobObject_call 0x44 9 memory_limits 144]
   \<and> unat (ProcessMemoryLimit memory_limits) = 4096
   \<and> LimitFlags (BasicLimitInformation memory_limits) = 0x100"
proof -
  have ok: "fst (enable env_ok w_start)"
    by (simp add: enable_success run_defs)
  show ?thesis
    using ok enable_writes_memory_ceiling [OF ok]
    by (simp add: const_defs memory_limits_def JOB_OBJECT_LIMIT_PROCESS_MEMORY_def run_defs)
qed

text \<open>
  C6. Each of the three primitive calls is treated as successful exactly when its status,
  read as a signed 32-bit integer, is non-negative, and as failed exactly when it is
  negative. After a creation the run goes on to attach exactly when the creation status
  is non-negative and stops with the creation error exactly when it is negative; after an
  attachment it goes on to set the limit exactly when the attachment status is
  non-negative and stops with the attachment error exactly when it is negative; after
  the limit-setting call it returns \<^verbatim>\<open>true\<close> exactly when that status is non-negative
  and stops with the limit error exactly when it is negative. Nothing of a status but
  its sign is examined.
\<close>

theorem nt_success_is_sign_test:
  assumes "all_resolved env"
  shows "NT_SUCCESS s = (0 \<le> sint s) \<and> (\<not> NT_SUCCESS s) = (sint s < 0)
       \<and> (NtAssignProcessToJobObject_call (NtCreateJobObject_handle env) NtCurrentProcess
            \<in> set (invoked w (snd (enable env w)))
          \<longleftrightarrow> 0 \<le> sint (NtCreateJobObject_status env))
       \<and> (emitted w (snd (enable env w)) = ''[ERROR] Failed to create job object'' @ endl
          \<longleftrightarrow> sint (NtCreateJobObject_status env) < 0)
       \<and> (0 \<le> sint (NtCreateJobObject_status env) \<longrightarrow>
            ((\<exists>L n. NtSetInformationJobObject_call (NtCreateJobObject_handle env)
                      JobObjectExtendedLimitInformation L n
                    \<in> set (invoked w (snd (enable env w))))
             \<longleftrightarrow> 0 \<le> sint (NtAssignProcessToJobObject_status env))
          \<and> (emitted w (snd (enable env w)) =
                ''[ERROR] Failed to assign process to job'' @ endl
             \<longleftrightarrow> sint (NtAssignProcessToJobObject_status env) < 0))
       \<and> (0 \<le> sint (NtCreateJobObject_status env)
          \<and> 0 \<le> sint (NtAssignProcessToJobObject_status env) \<longrightarrow>
            (fst (enable env w) \<longleftrightarrow> 0 \<le> sint (NtSetInformationJobObject_status env))
          \<and> (emitted w (snd (enable env w)) = ''[ERROR] Failed to set job limits'' @ endl
             \<longleftrightarrow> sint (NtSetInformationJobObject_status env) < 0))"
proof (cases env rule: enable_cases)
  case unresolved
  with assms show ?thesis by simp
next
  case create_failed
  then show ?thesis by (simp add: enable_create_failed NT_SUCCESS_def not_le)
next
  case assign_failed
  then show ?thesis by (simp add: enable_assign_failed NT_SUCCESS_def not_le)
next
  case limit_failed
  then show ?thesis by (simp add: enable_limit_failed NT_SUCCESS_def not_le)
next
  case success
  then show ?thesis by (simp add: enable_success NT_SUCCESS_def not_le)
qed

theorem nt_success_is_sign_test_witness:
  "all_resolved env_informational
   \<and> 0 \<le> sint (NtCreateJobObject_status env_informational)
   \<and> 0 \<le> sint (NtAssignProcessToJobObject_status env_informational)
   \<and> 0 \<le> sint (NtSetInformationJobObject_status env_informational)
   \<and> fst (enable env_informational w_start) = True
   \<and> all_resolved env_warning
   \<and> 0 \<le> sint (NtCreateJobObject_status env_warning)
   \<and> sint (NtAssignProcessToJobObject_status env_warning) < 0
   \<and> emitted w_start (snd (enable env_warning w_start)) =
        ''[ERROR] Failed to assign process to job'' @ [CHR 0x0A]"
  using nt_success_is_sign_test [of env_informational _ w_start]
    nt_success_is_sign_test [of env_warning _ w_start]
  by (simp add: run_defs endl_def)

section \<open>What a run prints\<close>

text \<open>
  C7. Every run of \<^verbatim>\<open>enable()\<close> writes exactly one line, through \<^verbatim>\<open>log\<close>. A run
  that returns \<^verbatim>\<open>false\<close> writes one line of error severity whose message names the
  step that failed: "Failed to get NT API functions", "Failed to create job object",
  "Failed to assign process to job" or "Failed to set job limits". A run in which every
  step succeeds writes the one line "Memory protection active" of info severity and
  returns \<^verbatim>\<open>true\<close>.
\<close>

theorem enable_emits_one_line:
  "line_count (emitted w (snd (enable env w))) = 1
   \<and> cout (snd (enable env w)) = cout w @ emitted w (snd (enable env w))
   \<and> (\<not> all_resolved env \<longrightarrow>
        fst (enable env w) = False
        \<and> cout (snd (enable env w)) = cout (log error ''Failed to get NT API functions'' w)
        \<and> emitted w (snd (enable env w)) = ''[ERROR] Failed to get NT API functions'' @ endl)
   \<and> (all_resolved env \<and> sint (NtCreateJobObject_status env) < 0 \<longrightarrow>
        fst (enable env w) = False
        \<and> cout (snd (enable env w)) = cout (log error ''Failed to create job object'' w)
        \<and> emitted w (snd (enable env w)) = ''[ERROR] Failed to create job object'' @ endl)
   \<and> (all_resolved env \<and> 0 \<le> sint (NtCreateJobObject_status env)
        \<and> sint (NtAssignProcessToJobObject_status env) < 0 \<longrightarrow>
        fst (enable env w) = False
        \<and> cout (snd (enable env w)) = cout (log error ''Failed to assign process to job'' w)
        \<and> emitted w (snd (enable env w)) =
            ''[ERROR] Failed to assign process to job'' @ endl)
   \<and> (all_resolved env \<and> 0 \<le> sint (NtCreateJobObject_status env)
        \<and> 0 \<le> sint (NtAssignProcessToJobObject_status env)
        \<and> sint (NtSetInformationJobObject_status env) < 0 \<longrightarrow>
        fst (enable env w) = False
        \<and> cout (snd (enable env w)) = cout (log error ''Failed to set job limits'' w)
        \<and> emitted w (snd (enable env w)) = ''[ERROR] Failed to set job limits'' @ endl)
   \<and> (all_resolved env \<and> 0 \<le> sint (NtCreateJobObject_status env)
        \<and> 0 \<le> sint (NtAssignProcessToJobObject_status env)
        \<and> 0 \<le> sint (NtSetInformationJobObject_status env) \<longrightarrow>
        fst (enable env w) = True
        \<and> cout (snd (enable env w)) = cout (log info ''Memory protection active'' w)
        \<and> emitted w (snd (enable env w)) = ''[INFO] Memory protection active'' @ endl)"
proof (cases env rule: enable_cases)
  case unresolved
  then show ?thesis by (simp add: enable_unresolved log_def)
next
  case create_failed
  then show ?thesis by (simp add: enable_create_failed log_def)
next
  case assign_failed
  then show ?thesis by (simp add: enable_assign_failed log_def)
next
  case limit_failed
  then show ?thesis by (simp add: enable_limit_failed log_def)
next
  case success
  then show ?thesis by (simp add: enable_success log_def)
qed

theorem enable_emits_one_line_witness:
  "cout (snd (enable env_unresolved w_start)) =
     ''[ERROR] Failed to get NT API functions'' @ [CHR 0x0A]
   \<and> cout (snd (enable env_create_fails w_start)) =
     ''[ERROR] Failed to create job object'' @ [CHR 0x0A]
   \<and> cout (snd (enable env_attach_fails w_start)) =
     ''[ERROR] Failed to assign process to job'' @ [CHR 0x0A]
   \<and> cout (snd (enable env_limit_fails w_start)) =
     ''[ERROR] Failed to set job limits'' @ [CHR 0x0A]
   \<and> cout (snd (enable env_ok w_start)) = ''[INFO] Memory protection active'' @ [CHR 0x0A]
   \<and> fst (enable env_ok w_start) = True
   \<and> line_count (cout (snd (enable env_ok w_start))) = 1"
  using enable_emits_one_line [of w_start env_unresolved]
    enable_emits_one_line [of w_start env_create_fails]
    enable_emits_one_line [of w_start env_attach_fails]
    enable_emits_one_line [of w_start env_limit_fails]
    enable_emits_one_line [of w_start env_ok]
  by (simp add: run_defs endl_def log_def emitted_def)

text \<open>
  C8, as the code has it. Every call of \<^verbatim>\<open>log\<close> appends to \<^verbatim>\<open>std::cout\<close> the
  severity prefix ("[INFO] ", "[WARN] " or "[ERROR] "), the formatted message and one line
  terminator, and touches nothing else. The text it writes has one line more than the
  message has line terminators: it is exactly one line when the message contains no line
  terminator.
\<close>

theorem log_emits_prefixed_message:
  "cout (log info msg w) = cout w @ ''[INFO] '' @ msg @ [CHR 0x0A]
   \<and> cout (log warning msg w) = cout w @ ''[WARN] '' @ msg @ [CHR 0x0A]
   \<and> cout (log error msg w) = cout w @ ''[ERROR] '' @ msg @ [CHR 0x0A]
   \<and> cin (log level msg w) = cin w \<and> calls (log level msg w) = calls w
   \<and> line_count (emitted w (log level msg w)) = Suc (line_count msg)
   \<and> (CHR 0x0A \<notin> set msg \<longrightarrow> line_count (emitted w (log level msg w)) = 1)"
  by (cases level) (simp_all add: log_def endl_def emitted_def line_count_def)

theorem log_emits_prefixed_message_witness:
  "CHR 0x0A \<notin> set ''Press ENTER to close program.''
   \<and> cout (log info ''Press ENTER to close program.'' w_start) =
        ''[INFO] Press ENTER to close program.'' @ [CHR 0x0A]
   \<and> line_count (emitted w_start (log info ''Press ENTER to close program.'' w_start)) = 1"
  using log_emits_prefixed_message [of "''Press ENTER to close program.''" w_start info]
  by (simp add: run_defs)

text \<open>
  C8 as the specification words it (exactly one line for every call) fails for a message
  that contains a line terminator: the call \<^verbatim>\<open>log(log_level::info, "a\nb")\<close> writes
  the two lines "[INFO] a" and "b".
\<close>

theorem log_message_with_newline_emits_two_lines:
  "cout (log info [CHR ''a'', CHR 0x0A, CHR ''b''] w_start) =
     ''[INFO] a'' @ [CHR 0x0A] @ ''b'' @ [CHR 0x0A]
   \<and> line_count (emitted w_start (log info [CHR ''a'', CHR 0x0A, CHR ''b''] w_start)) = 2"
  by (simp add: log_def endl_def emitted_def run_defs)

text \<open>
  C9. The result of \<^verbatim>\<open>enable()\<close> and the text it writes are determined by which lookups
  are null and by the three status codes: two runs that agree on these return the same
  boolean and write the same lines, whatever the addresses, the handle and the earlier
  state of the process are.
\<close>

theorem enable_deterministic:
  assumes "(get_nt_api e1 ''NtCreateJobObject'' = 0)
           = (get_nt_api e2 ''NtCreateJobObject'' = 0)"
    and "(get_nt_api e1 ''NtAssignProcessToJobObject'' = 0)
         = (get_nt_api e2 ''NtAssignProcessToJobObject'' = 0)"
    and "(get_nt_api e1 ''NtSetInformationJobObject'' = 0)
         = (get_nt_api e2 ''NtSetInformationJobObject'' = 0)"
    and "NtCreateJobObject_status e1 = NtCreateJobObject_status e2"
    and "NtAssignProcessToJobObject_status e1 = NtAssignProcessToJobObject_status e2"
    and "NtSetInformationJobObject_status e1 = NtSetInformationJobObject_status e2"
  shows "fst (enable e1 w1) = fst (enable e2 w2)
         \<and> emitted w1 (snd (enable e1 w1)) = emitted w2 (snd (enable e2 w2))"
proof -
  from assms(1-3) have r: "all_resolved e2 = all_resolved e1"
    by (simp add: all_resolved_def)
  show ?thesis
  proof (cases e1 rule: enable_cases)
    case unresolved
    with r show ?thesis by (simp add: enable_unresolved)
  next
    case create_failed
    with r assms(4-6) show ?thesis by (simp add: enable_create_failed)
  next
    case assign_failed
    with r assms(4-6) show ?thesis by (simp add: enable_assign_failed)
  next
    case limit_failed
    with r assms(4-6) show ?thesis by (simp add: enable_limit_failed)
  next
    case success
    with r assms(4-6) show ?thesis by (simp add: enable_success)
  qed
qed

theorem enable_deterministic_witness:
  "get_nt_api env_ok ''NtCreateJobObject'' \<noteq> get_nt_api env_ok_elsewhere ''NtCreateJobObject''
   \<and> NtCreateJobObject_handle env_ok \<noteq> NtCreateJobObject_handle env_ok_elsewhere
   \<and> cout w_start \<noteq> cout w_busy
   \<and> fst (enable env_ok w_start) = fst (enable env_ok_elsewhere w_busy)
   \<and> emitted w_start (snd (enable env_ok w_start)) =
       emitted w_busy (snd (enable env_ok_elsewhere w_busy))"
  using enable_deterministic [of env_ok env_ok_elsewhere w_start w_busy]
  by (simp add: run_defs)

text \<open>
  C10. \<^verbatim>\<open>enable_protection()\<close> writes, after the one line of \<^verbatim>\<open>enable()\<close>, a second
  line: "Protection active!" of info severity when \<^verbatim>\<open>enable()\<close> returned \<^verbatim>\<open>true\<close>,
  "Failed to set protection!" of error severity when it returned \<^verbatim>\<open>false\<close>. A run of
  \<^verbatim>\<open>main\<close> prints these two lines and then the line "Press ENTER to close program.".
\<close>

theorem main_prints_second_outcome_line:
  "emitted w (enable_protection env w) =
     emitted w (snd (enable env w))
       @ (if fst (enable env w) then ''[INFO] Protection active!'' @ endl
          else ''[ERROR] Failed to set protection!'' @ endl)
   \<and> line_count (emitted w (snd (enable env w))) = 1
   \<and> line_count (emitted w (enable_protection env w)) = 2
   \<and> emitted w (snd (main env w)) =
       emitted w (enable_protection env w) @ ''[INFO] Press ENTER to close program.'' @ endl
   \<and> cout (snd (main env w)) = cout w @ emitted w (snd (main env w))
   \<and> (emitted w (snd (main env w)) =
         ''[INFO] Memory protection active'' @ endl @ ''[INFO] Protection active!'' @ endl
           @ ''[INFO] Press ENTER to close program.'' @ endl)
       = fst (enable env w)"
proof (cases env rule: enable_cases)
  case unresolved
  then show ?thesis
    by (simp add: enable_unresolved main_def enable_protection_def log_def emitted_def
        cout_cin_get endl_def)
next
  case create_failed
  then show ?thesis
    by (simp add: enable_create_failed main_def enable_protection_def log_def emitted_def
        cout_cin_get endl_def)
next
  case assign_failed
  then show ?thesis
    by (simp add: enable_assign_failed main_def enable_protection_def log_def emitted_def
        cout_cin_get endl_def)
next
  case limit_failed
  then show ?thesis
    by (simp add: enable_limit_failed main_def enable_protection_def log_def emitted_def
        cout_cin_get endl_def)
next
  case success
  then show ?thesis
    by (simp add: enable_success main_def enable_protection_def log_def emitted_def
        cout_cin_get endl_def)
qed

theorem main_prints_second_outcome_line_witness:
  "cout (snd (main env_ok w_start)) =
     ''[INFO] Memory protection active'' @ [CHR 0x0A]
       @ ''[INFO] Protection active!'' @ [CHR 0x0A]
       @ ''[INFO] Press ENTER to close program.'' @ [CHR 0x0A]
   \<and> cout (snd (main env_attach_fails w_start)) =
     ''[ERROR] Failed to assign process to job'' @ [CHR 0x0A]
       @ ''[ERROR] Failed to set protection!'' @ [CHR 0x0A]
       @ ''[INFO] Press ENTER to close program.'' @ [CHR 0x0A]
   \<and> fst (main env_ok w_start) = 10"
  using main_prints_second_outcome_line [of w_start env_ok]
    main_prints_second_outcome_line [of w_start env_attach_fails]
  by (simp add: run_defs enable_success enable_assign_failed endl_def main_def cin_get_def
      enable_protection_def log_def)

end
